theory Spec2Isabelle
  imports Complex_Main
begin

section \<open>Numbers\<close>

text \<open>
  The scripts compute with two kinds of floating-point numbers.  The ratio script
  (\<^verbatim>\<open>analyze_sample_results.py\<close>) uses plain Python floats, whose division raises
  \<^verbatim>\<open>ZeroDivisionError\<close> on a zero divisor.  The statistics script
  (\<^verbatim>\<open>generate_statistical_analysis.py\<close>) uses numpy \<^verbatim>\<open>float64\<close> scalars, whose arithmetic
  never raises: it yields \<^verbatim>\<open>nan\<close> or \<^verbatim>\<open>inf\<close> (with a warning) instead.

  The numbers are modelled twice.  In the first model finite values are real numbers:
  rounding and overflow to infinity are left out, and a decimal literal such as
  \<^verbatim>\<open>1.1\<close> stands for the real number it denotes.  It serves where nothing depends on
  the last bits: the bands and the counter of the ratio summarizer, the overall decision,
  and the propagation of \<^verbatim>\<open>nan\<close> from groups that are too short.  The second model,
  further down, rounds every operation to binary64 and is the one the statistics of the
  hypothesis tester are stated in.  Both keep the special values of numpy; neither models
  the sign of zero (a zero is treated as \<^verbatim>\<open>+0.0\<close>).
\<close>

datatype pyerror = ZeroDivisionError | KeyError | ValueError

datatype npfloat = Fin real | PInf | NInf | NaN

text \<open>Python's \<^verbatim>\<open>/\<close> on two floats.\<close>

definition py_truediv :: "real \<Rightarrow> real \<Rightarrow> pyerror + real" where
  "py_truediv a b = (if b = 0 then Inl ZeroDivisionError else Inr (a / b))"

text \<open>The infinity with the sign of a real factor; \<^verbatim>\<open>nan\<close> when the factor is zero.\<close>

definition inf_of_sign :: "real \<Rightarrow> npfloat" where
  "inf_of_sign s = (if 0 < s then PInf else if s < 0 then NInf else NaN)"

fun np_neg :: "npfloat \<Rightarrow> npfloat" where
  "np_neg (Fin a) = Fin (- a)"
| "np_neg PInf = NInf"
| "np_neg NInf = PInf"
| "np_neg NaN = NaN"

fun np_add :: "npfloat \<Rightarrow> npfloat \<Rightarrow> npfloat" where
  "np_add NaN y = NaN"
| "np_add x NaN = NaN"
| "np_add (Fin a) (Fin b) = Fin (a + b)"
| "np_add PInf NInf = NaN"
| "np_add NInf PInf = NaN"
| "np_add PInf y = PInf"
| "np_add x PInf = PInf"
| "np_add NInf y = NInf"
| "np_add x NInf = NInf"

definition np_sub :: "npfloat \<Rightarrow> npfloat \<Rightarrow> npfloat" where
  "np_sub x y = np_add x (np_neg y)"

fun np_mul :: "npfloat \<Rightarrow> npfloat \<Rightarrow> npfloat" where
  "np_mul NaN y = NaN"
| "np_mul x NaN = NaN"
| "np_mul (Fin a) (Fin b) = Fin (a * b)"
| "np_mul (Fin a) PInf = inf_of_sign a"
| "np_mul (Fin a) NInf = inf_of_sign (- a)"
| "np_mul PInf (Fin b) = inf_of_sign b"
| "np_mul NInf (Fin b) = inf_of_sign (- b)"
| "np_mul PInf PInf = PInf"
| "np_mul NInf NInf = PInf"
| "np_mul PInf NInf = NInf"
| "np_mul NInf PInf = NInf"

text \<open>
  numpy's \<^verbatim>\<open>/\<close>: a finite value over zero is an infinity of its sign, \<^verbatim>\<open>0/0\<close> and
  \<^verbatim>\<open>inf/inf\<close> are \<^verbatim>\<open>nan\<close>.  Nothing is raised.
\<close>

fun np_div :: "npfloat \<Rightarrow> npfloat \<Rightarrow> npfloat" where
  "np_div NaN y = NaN"
| "np_div x NaN = NaN"
| "np_div (Fin a) (Fin b) = (if b = 0 then inf_of_sign a else Fin (a / b))"
| "np_div (Fin a) PInf = Fin 0"
| "np_div (Fin a) NInf = Fin 0"
| "np_div PInf (Fin b) = (if 0 \<le> b then PInf else NInf)"
| "np_div NInf (Fin b) = (if 0 \<le> b then NInf else PInf)"
| "np_div PInf y = NaN"
| "np_div NInf y = NaN"

fun np_sqrt :: "npfloat \<Rightarrow> npfloat" where
  "np_sqrt (Fin a) = (if a < 0 then NaN else Fin (sqrt a))"
| "np_sqrt PInf = PInf"
| "np_sqrt NInf = NaN"
| "np_sqrt NaN = NaN"

text \<open>The comparison \<^verbatim>\<open>x < y\<close>; every comparison with \<^verbatim>\<open>nan\<close> is false.\<close>

fun np_less :: "npfloat \<Rightarrow> npfloat \<Rightarrow> bool" where
  "np_less NaN y = False"
| "np_less x NaN = False"
| "np_less (Fin a) (Fin b) = (a < b)"
| "np_less PInf y = False"
| "np_less x NInf = False"
| "np_less NInf y = True"
| "np_less x PInf = True"

definition np_greater :: "npfloat \<Rightarrow> npfloat \<Rightarrow> bool" where
  "np_greater x y = np_less y x"

text \<open>A Python \<^verbatim>\<open>int\<close> that meets a \<^verbatim>\<open>float64\<close> in an operation is converted first.\<close>

definition np_of_int :: "int \<Rightarrow> npfloat" where
  "np_of_int k = Fin (of_int k)"

definition np_sum :: "npfloat list \<Rightarrow> npfloat" where
  "np_sum xs = foldl np_add (Fin 0) xs"

text \<open>
  \<^verbatim>\<open>np.mean\<close>: the sum over the count; the mean of an empty sequence is \<^verbatim>\<open>nan\<close>.
\<close>

definition np_mean :: "real list \<Rightarrow> npfloat" where
  "np_mean xs = np_div (np_sum (map Fin xs)) (np_of_int (int (length xs)))"

text \<open>
  \<^verbatim>\<open>np.var(xs, ddof=1)\<close>: the squared deviations from the mean, summed and divided by
  \<^verbatim>\<open>max(n - ddof, 0)\<close>.  With fewer than two samples the divisor is zero and the result
  is \<^verbatim>\<open>nan\<close>.
\<close>

definition np_var_ddof1 :: "real list \<Rightarrow> npfloat" where
  "np_var_ddof1 xs =
     (let arrmean = np_mean xs;
          sq = map (\<lambda>x. let d = np_sub (Fin x) arrmean in np_mul d d) xs
      in np_div (np_sum sq) (np_of_int (max (int (length xs) - 1) 0)))"

section \<open>The ratio summarizer (\<^verbatim>\<open>analyze_sample_results.py\<close>)\<close>

text \<open>
  \<^verbatim>\<open>analyze_memory_workload_results\<close> of this script reads two literal tables, loops over
  the baseline table, and prints.  The tables are parameters here: the baseline table as
  the list of its items in insertion order (the keys of a dictionary are distinct), the
  optimized table as a map.  What the function prints is returned as a record.  The
  status strings are the source's without their leading pictograph.
\<close>

text \<open>
  The chain of comparisons in the loop (lines 50 to 58): it yields the counter, which only
  its first branch increments, and the status.
\<close>

definition classify :: "nat \<Rightarrow> real \<Rightarrow> nat \<times> string" where
  "classify significant_improvements improvement_ratio =
     (if improvement_ratio \<ge> 2 then (significant_improvements + 1, ''SIGNIFICANT'')
      else if improvement_ratio \<ge> 15 / 10 then (significant_improvements, ''GOOD'')
      else if improvement_ratio \<ge> 11 / 10 then (significant_improvements, ''MODEST'')
      else (significant_improvements, ''REGRESSION''))"

record ratio_state =
  improvements :: "(string \<times> real) list"
  significant_improvements :: nat
  printed :: "(string \<times> real \<times> string) list"

text \<open>One pass through the body of the loop (lines 43 to 60).\<close>

definition ratio_step :: "(string \<rightharpoonup> real) \<Rightarrow> ratio_state \<Rightarrow> string \<times> real \<Rightarrow> pyerror + ratio_state" where
  "ratio_step optimized_results st entry =
     (case entry of (benchmark, baseline_time) \<Rightarrow>
        (case optimized_results benchmark of
           None \<Rightarrow> Inl KeyError
         | Some optimized_time \<Rightarrow>
             (case py_truediv baseline_time optimized_time of
                Inl e \<Rightarrow> Inl e
              | Inr improvement_ratio \<Rightarrow>
                  (case classify (significant_improvements st) improvement_ratio of
                     (count, status) \<Rightarrow>
                       Inr \<lparr> improvements = improvements st @ [(benchmark, improvement_ratio)],
                             significant_improvements = count,
                             printed = printed st @ [(benchmark, improvement_ratio, status)] \<rparr>))))"

fun ratio_loop :: "(string \<rightharpoonup> real) \<Rightarrow> ratio_state \<Rightarrow> (string \<times> real) list \<Rightarrow> pyerror + ratio_state" where
  "ratio_loop optimized_results st [] = Inr st"
| "ratio_loop optimized_results st (entry # rest) =
     (case ratio_step optimized_results st entry of
        Inl e \<Rightarrow> Inl e
      | Inr st' \<Rightarrow> ratio_loop optimized_results st' rest)"

record ratio_summary =
  rows :: "(string \<times> real \<times> string) list"
  total_benchmarks :: nat
  significant :: nat
  success_rate :: real
  avg_improvement :: real
  max_improvement :: real
  min_improvement :: real
  preview :: string

text \<open>
  The summary after the loop (lines 65 to 90).  \<^verbatim>\<open>significant_improvements/len(improvements)\<close>
  divides two Python integers and raises on an empty table; \<^verbatim>\<open>max\<close> and \<^verbatim>\<open>min\<close> of an
  empty list raise \<^verbatim>\<open>ValueError\<close>.
\<close>

definition ratio_report :: "ratio_state \<Rightarrow> pyerror + ratio_summary" where
  "ratio_report st =
     (let n = length (improvements st) in
      if n = 0 then Inl ZeroDivisionError
      else
        let improvement_ratios = map snd (improvements st) in
        (case improvement_ratios of
           [] \<Rightarrow> Inl ValueError
         | r # rs \<Rightarrow>
             Inr \<lparr> rows = printed st,
                   total_benchmarks = n,
                   significant = significant_improvements st,
                   success_rate = real (significant_improvements st) / real n * 100,
                   avg_improvement = sum_list improvement_ratios / real n,
                   max_improvement = fold max rs r,
                   min_improvement = fold min rs r,
                   preview =
                     (if significant_improvements st \<ge> 3
                      then ''NULL HYPOTHESIS LIKELY TO BE REJECTED''
                      else ''INSUFFICIENT EVIDENCE TO REJECT NULL HYPOTHESIS'') \<rparr>))"

text \<open>The variables of the loop as they are set before it (lines 39 and 40).\<close>

definition init_state :: ratio_state where
  "init_state = \<lparr> improvements = [], significant_improvements = 0, printed = [] \<rparr>"

definition analyze_memory_workload_results ::
    "(string \<times> real) list \<Rightarrow> (string \<rightharpoonup> real) \<Rightarrow> pyerror + ratio_summary" where
  "analyze_memory_workload_results baseline_results optimized_results =
     (case ratio_loop optimized_results init_state baseline_results of
        Inl e \<Rightarrow> Inl e
      | Inr st \<Rightarrow> ratio_report st)"

text \<open>
  The two tables written in the script (\<^verbatim>\<open>baseline_results\<close> and \<^verbatim>\<open>optimized_results\<close>,
  lines 10 to 32), in milliseconds.
\<close>

definition literal_baseline_results :: "(string \<times> real) list" where
  "literal_baseline_results =
     [(''collection_pipeline'', 70102 / 1000),
      (''string_building'', 72465 / 10000),
      (''vector_operations'', 20042 / 10000),
      (''hashmap_operations'', 10251 / 10),
      (''nested_structures'', 65910 / 100),
      (''recursive_processing'', 29403 / 1000),
      (''large_objects'', 46125 / 100),
      (''streaming_simulation'', 35329 / 10000),
      (''text_processing'', 19005 / 100)]"

definition literal_optimized_results :: "string \<rightharpoonup> real" where
  "literal_optimized_results =
     map_of
       [(''collection_pipeline'', 21377 / 1000),
        (''string_building'', 32477 / 10000),
        (''vector_operations'', 70256 / 100000),
        (''hashmap_operations'', 37975 / 100),
        (''nested_structures'', 47363 / 100),
        (''recursive_processing'', 34084 / 1000),
        (''large_objects'', 24483 / 100),
        (''streaming_simulation'', 40713 / 10000),
        (''text_processing'', 62498 / 1000)]"

section \<open>The hypothesis tester (\<^verbatim>\<open>generate_statistical_analysis.py\<close>)\<close>

subsection \<open>The library calls\<close>

text \<open>
  The script calls \<^verbatim>\<open>scipy.stats\<close>.  Two of its functions evaluate the distribution
  function of Student's t and are taken as parameters: \<^verbatim>\<open>ttest_ind a b equal_var\<close>
  returns the pair of the t statistic and the two-sided p-value, and \<^verbatim>\<open>t_ppf q df\<close> is
  the standard quantile of the t distribution (location 0, scale 1) for a level
  \<open>0 < q < 1\<close> and \<open>df > 0\<close>.
\<close>

record scipy_stats =
  ttest_ind :: "real list \<Rightarrow> real list \<Rightarrow> bool \<Rightarrow> npfloat \<times> npfloat"
  t_ppf :: "real \<Rightarrow> int \<Rightarrow> real"

text \<open>
  \<^verbatim>\<open>stats.sem\<close>: the sample standard deviation (\<^verbatim>\<open>ddof=1\<close>) over the square root of the
  count.
\<close>

definition stats_sem :: "real list \<Rightarrow> npfloat" where
  "stats_sem xs = np_div (np_sqrt (np_var_ddof1 xs)) (np_sqrt (np_of_int (int (length xs))))"

text \<open>
  The quantile with location and scale, as \<^verbatim>\<open>rv_continuous.ppf\<close> computes it: \<^verbatim>\<open>nan\<close>
  unless \<open>df > 0\<close>, \<open>scale > 0\<close> and the location is not \<^verbatim>\<open>nan\<close>; the ends of the support
  at the levels 0 and 1.
\<close>

definition stats_t_ppf :: "scipy_stats \<Rightarrow> real \<Rightarrow> int \<Rightarrow> npfloat \<Rightarrow> npfloat \<Rightarrow> npfloat" where
  "stats_t_ppf lib q df loc scale =
     (if 0 < df \<and> np_less (Fin 0) scale \<and> loc \<noteq> NaN then
        (if 0 < q \<and> q < 1 then np_add (np_mul (Fin (t_ppf lib q df)) scale) loc
         else if q = 0 then NInf
         else if q = 1 then PInf
         else NaN)
      else NaN)"

text \<open>\<^verbatim>\<open>stats.t.interval(confidence, df, loc=..., scale=...)\<close>.\<close>

definition stats_t_interval ::
    "scipy_stats \<Rightarrow> real \<Rightarrow> int \<Rightarrow> npfloat \<Rightarrow> npfloat \<Rightarrow> npfloat \<times> npfloat" where
  "stats_t_interval lib confidence df loc scale =
     (let q1 = (1 - confidence) / 2; q2 = (1 + confidence) / 2
      in (stats_t_ppf lib q1 df loc scale, stats_t_ppf lib q2 df loc scale))"

subsection \<open>The test of one category\<close>

definition calculate_effect_size :: "npfloat \<Rightarrow> npfloat \<Rightarrow> npfloat \<Rightarrow> npfloat" where
  "calculate_effect_size baseline_mean optimized_mean pooled_std =
     np_div (np_sub baseline_mean optimized_mean) pooled_std"

text \<open>The expression bound to \<^verbatim>\<open>pooled_std\<close> (lines 30 to 32).\<close>

definition pooled_std :: "real list \<Rightarrow> real list \<Rightarrow> npfloat" where
  "pooled_std baseline_times optimized_times =
     np_sqrt
       (np_div
          (np_add
             (np_mul (np_of_int (int (length baseline_times) - 1)) (np_var_ddof1 baseline_times))
             (np_mul (np_of_int (int (length optimized_times) - 1)) (np_var_ddof1 optimized_times)))
          (np_of_int (int (length baseline_times) + int (length optimized_times) - 2)))"

record stat_result =
  baseline_mean :: npfloat
  optimized_mean :: npfloat
  improvement_ratio :: npfloat
  p_value :: npfloat
  cohens_d :: npfloat
  baseline_ci :: "npfloat \<times> npfloat"
  optimized_ci :: "npfloat \<times> npfloat"
  is_significant :: bool
  t_statistic :: npfloat

text \<open>The default of the parameter \<^verbatim>\<open>alpha\<close>.\<close>

definition alpha_default :: real where
  "alpha_default = 5 / 100"

text \<open>
  \<^verbatim>\<open>perform_hypothesis_test\<close> (lines 18 to 57).  \<^verbatim>\<open>ttest_ind\<close> is called with its
  default \<^verbatim>\<open>equal_var=True\<close>.  No statement of the function raises on sequences of
  finite numbers, so the result is a record and not a sum.
\<close>

definition perform_hypothesis_test ::
    "scipy_stats \<Rightarrow> real list \<Rightarrow> real list \<Rightarrow> real \<Rightarrow> stat_result" where
  "perform_hypothesis_test lib baseline_times optimized_times alpha =
     (let bm = np_mean baseline_times;
          om = np_mean optimized_times;
          ratio = np_div bm om;
          tp = ttest_ind lib baseline_times optimized_times True;
          d = calculate_effect_size bm om (pooled_std baseline_times optimized_times);
          bci = stats_t_interval lib (95 / 100) (int (length baseline_times) - 1) bm
                  (stats_sem baseline_times);
          oci = stats_t_interval lib (95 / 100) (int (length optimized_times) - 1) om
                  (stats_sem optimized_times)
      in \<lparr> baseline_mean = bm,
           optimized_mean = om,
           improvement_ratio = ratio,
           p_value = snd tp,
           cohens_d = d,
           baseline_ci = bci,
           optimized_ci = oci,
           is_significant = (np_less (snd tp) (Fin alpha) \<and> np_greater d (Fin (8 / 10))),
           t_statistic = fst tp \<rparr>)"

subsection \<open>All categories, and the report\<close>

text \<open>
  \<^verbatim>\<open>analyze_memory_workload_results\<close> of this script (lines 59 to 96), with the literal
  table \<^verbatim>\<open>benchmark_data\<close> as a parameter: the list of its items, each a name with its
  baseline and optimized samples.  Every call leaves \<^verbatim>\<open>alpha\<close> at its default.
\<close>

definition analyze_memory_workload_results_stats ::
    "scipy_stats \<Rightarrow> (string \<times> real list \<times> real list) list \<Rightarrow> (string \<times> stat_result) list" where
  "analyze_memory_workload_results_stats lib benchmark_data =
     map (\<lambda>(benchmark_name, baseline_times, optimized_times).
            (benchmark_name,
             perform_hypothesis_test lib baseline_times optimized_times alpha_default))
         benchmark_data"

text \<open>The loop of \<^verbatim>\<open>generate_statistical_report\<close> that counts the significant results.\<close>

fun count_significant :: "nat \<Rightarrow> (string \<times> stat_result) list \<Rightarrow> nat" where
  "count_significant significant_count [] = significant_count"
| "count_significant significant_count ((benchmark_name, stats) # rest) =
     count_significant
       (if is_significant stats then significant_count + 1 else significant_count) rest"

record report =
  total_count :: nat
  significant_count :: nat
  report_success_rate :: real
  decision :: string

text \<open>
  \<^verbatim>\<open>generate_statistical_report\<close> (lines 180 to 309), reduced to the values it computes
  and the decision it writes; the fixed prose of the report is left out.  The success
  rate divides two Python integers and raises when there is no result.
\<close>

definition generate_statistical_report :: "(string \<times> stat_result) list \<Rightarrow> pyerror + report" where
  "generate_statistical_report results =
     (let significant_count = count_significant 0 results;
          total_count = length results
      in if total_count = 0 then Inl ZeroDivisionError
         else Inr \<lparr> total_count = total_count,
                    significant_count = significant_count,
                    report_success_rate = real significant_count / real total_count * 100,
                    decision =
                      (if significant_count \<ge> 3
                       then ''DECISION: REJECT NULL HYPOTHESIS''
                       else ''DECISION: FAIL TO REJECT NULL HYPOTHESIS'') \<rparr>)"


text \<open>Another stand-in, whose test always reports the p-value \<open>1/100\<close>.\<close>

definition scipy_small_p :: scipy_stats where
  "scipy_small_p =
     \<lparr> ttest_ind = (\<lambda>a b equal_var. (Fin 3, Fin (1 / 100))),
       t_ppf = (\<lambda>q df. if q < 1 / 2 then - 2 else 2) \<rparr>"

section \<open>The wording of the specification\<close>



text \<open>The number of printed rows whose status is SIGNIFICANT.\<close>

definition sig_rows :: "(string \<times> real \<times> string) list \<Rightarrow> nat" where
  "sig_rows rs = length (filter (\<lambda>(n, r, s). s = ''SIGNIFICANT'') rs)"

section \<open>Binary64 arithmetic\<close>

text \<open>
  A finite float64 is a real number \<open>k * 2 ^ e\<close> with \<open>\<bar>k\<bar> < 2 ^ 53\<close> and
  \<open>- 1074 \<le> e \<le> 971\<close>.  \<open>binade x\<close> is the exponent of the power of two at or below
  \<open>\<bar>x\<bar>\<close>, not below the least normal exponent, and \<open>ulp x\<close> the distance of neighbouring
  floats there.
\<close>

definition binade :: "real \<Rightarrow> int" where
  "binade x = max \<lfloor>log 2 \<bar>x\<bar>\<rfloor> (- 1022)"

definition ulp :: "real \<Rightarrow> real" where
  "ulp x = 2 powi (binade x - 52)"

text \<open>
  Rounding to the nearest integer, a tie to the even one.
\<close>

definition round_half_even :: "real \<Rightarrow> int" where
  "round_half_even y =
     (let f = \<lfloor>y\<rfloor> in
      if y - of_int f < 1 / 2 then f
      else if 1 / 2 < y - of_int f then f + 1
      else if even f then f else f + 1)"

text \<open>
  \<open>fl x\<close> is the float64 nearest to the real number \<open>x\<close> (ties to even), an infinity
  when the rounded value is beyond the largest float.  Every arithmetic operation of
  IEEE 754 returns \<open>fl\<close> of its exact result.
\<close>

definition fl :: "real \<Rightarrow> npfloat" where
  "fl x =
     (if x = 0 then Fin 0
      else let y = of_int (round_half_even (x / ulp x)) * ulp x in
        if 2 ^ 1024 \<le> y then PInf
        else if y \<le> - (2 ^ 1024) then NInf
        else Fin y)"

text \<open>
  The decimal literals of the statistics script, as the float64 values Python reads them
  as: \<^verbatim>\<open>0.95\<close>, \<^verbatim>\<open>0.05\<close> and \<^verbatim>\<open>0.8\<close>.
\<close>

definition py_0_95 :: real where "py_0_95 = 4278419646001971 / 2 ^ 52"

definition py_0_05 :: real where "py_0_05 = 3602879701896397 / 2 ^ 56"

definition py_0_8 :: real where "py_0_8 = 3602879701896397 / 2 ^ 52"

text \<open>
  The operations of numpy on float64 scalars.  On special values they are as in the first
  model; on finite values the exact result is rounded.
\<close>

fun f64_add :: "npfloat \<Rightarrow> npfloat \<Rightarrow> npfloat" where
  "f64_add NaN y = NaN"
| "f64_add x NaN = NaN"
| "f64_add (Fin a) (Fin b) = fl (a + b)"
| "f64_add PInf NInf = NaN"
| "f64_add NInf PInf = NaN"
| "f64_add PInf y = PInf"
| "f64_add x PInf = PInf"
| "f64_add NInf y = NInf"
| "f64_add x NInf = NInf"

definition f64_sub :: "npfloat \<Rightarrow> npfloat \<Rightarrow> npfloat" where
  "f64_sub x y = f64_add x (np_neg y)"

fun f64_mul :: "npfloat \<Rightarrow> npfloat \<Rightarrow> npfloat" where
  "f64_mul NaN y = NaN"
| "f64_mul x NaN = NaN"
| "f64_mul (Fin a) (Fin b) = fl (a * b)"
| "f64_mul (Fin a) PInf = inf_of_sign a"
| "f64_mul (Fin a) NInf = inf_of_sign (- a)"
| "f64_mul PInf (Fin b) = inf_of_sign b"
| "f64_mul NInf (Fin b) = inf_of_sign (- b)"
| "f64_mul PInf PInf = PInf"
| "f64_mul NInf NInf = PInf"
| "f64_mul PInf NInf = NInf"
| "f64_mul NInf PInf = NInf"

fun f64_div :: "npfloat \<Rightarrow> npfloat \<Rightarrow> npfloat" where
  "f64_div NaN y = NaN"
| "f64_div x NaN = NaN"
| "f64_div (Fin a) (Fin b) = (if b = 0 then inf_of_sign a else fl (a / b))"
| "f64_div (Fin a) PInf = Fin 0"
| "f64_div (Fin a) NInf = Fin 0"
| "f64_div PInf (Fin b) = (if 0 \<le> b then PInf else NInf)"
| "f64_div NInf (Fin b) = (if 0 \<le> b then NInf else PInf)"
| "f64_div PInf y = NaN"
| "f64_div NInf y = NaN"

fun f64_sqrt :: "npfloat \<Rightarrow> npfloat" where
  "f64_sqrt (Fin a) = (if a < 0 then NaN else fl (sqrt a))"
| "f64_sqrt PInf = PInf"
| "f64_sqrt NInf = NaN"
| "f64_sqrt NaN = NaN"

fun f64_abs :: "npfloat \<Rightarrow> npfloat" where
  "f64_abs (Fin a) = Fin \<bar>a\<bar>"
| "f64_abs PInf = PInf"
| "f64_abs NInf = PInf"
| "f64_abs NaN = NaN"


text \<open>
  A Python \<^verbatim>\<open>int\<close> is converted to float64 before it meets one.
\<close>

definition f64_of_int :: "int \<Rightarrow> npfloat" where
  "f64_of_int k = fl (of_int k)"

text \<open>
  The sum of a float64 array, in the order numpy adds (\<^verbatim>\<open>pairwise_sum\<close> of its
  \<^verbatim>\<open>add.reduce\<close>): fewer than 8 elements one after the other; up to 128 elements in eight
  running sums over blocks of 8, combined pairwise, then the remaining elements one after
  the other; longer arrays split in two halves, the first a multiple of 8 long.
\<close>

function block_sum :: "npfloat list \<Rightarrow> npfloat list \<Rightarrow> npfloat list" where
  "block_sum r a = (if length a < 8 then r else block_sum (map2 f64_add r (take 8 a)) (drop 8 a))"
  by pat_completeness auto
termination
  by (relation "measure (\<lambda>(r, a). length a)") auto

function pairwise_sum :: "npfloat list \<Rightarrow> npfloat" where
  "pairwise_sum a =
     (let n = length a in
      if n < 8 then foldl f64_add (Fin 0) a
      else if n \<le> 128 then
        (let m = n - n mod 8;
             r = block_sum (take 8 a) (drop 8 (take m a));
             res = f64_add (f64_add (f64_add (r ! 0) (r ! 1)) (f64_add (r ! 2) (r ! 3)))
                           (f64_add (f64_add (r ! 4) (r ! 5)) (f64_add (r ! 6) (r ! 7)))
         in foldl f64_add res (drop m a))
      else
        (let n2 = n div 2 - (n div 2) mod 8
         in f64_add (pairwise_sum (take n2 a)) (pairwise_sum (drop n2 a))))"
  by pat_completeness auto
termination
proof (relation "measure length")
  show "wf (measure length)" by simp
next
  fix a :: "npfloat list" and n n2
  assume "n = length a" "\<not> n < 8" "\<not> n \<le> 128" "n2 = n div 2 - n div 2 mod 8"
  then show "(take n2 a, a) \<in> measure length" by simp
next
  fix a :: "npfloat list" and n n2
  assume a: "n = length a" "\<not> n < 8" "\<not> n \<le> 128" "n2 = n div 2 - n div 2 mod 8"
  have "n div 2 mod 8 < 8" by simp
  moreover have "64 \<le> n div 2" using a by simp
  ultimately have "0 < n2" using a(4) by linarith
  moreover have "0 < length a" using a(1,3) by (cases a) simp_all
  ultimately have "length a - n2 < length a" by linarith
  then show "(drop n2 a, a) \<in> measure length" by simp
qed

declare block_sum.simps [simp del]

declare pairwise_sum.simps [simp del]

text \<open>
  \<^verbatim>\<open>np.mean\<close> and \<^verbatim>\<open>np.var(xs, ddof=1)\<close> as numpy computes them: the sum over the
  count; the deviations from that mean, squared, summed, and divided by
  \<^verbatim>\<open>max(n - ddof, 0)\<close>.  The samples are taken to be float64 values.
\<close>

definition np_mean64 :: "real list \<Rightarrow> npfloat" where
  "np_mean64 xs = f64_div (pairwise_sum (map Fin xs)) (f64_of_int (int (length xs)))"

definition np_var64 :: "real list \<Rightarrow> npfloat" where
  "np_var64 xs =
     (let arrmean = np_mean64 xs;
          sq = map (\<lambda>x. let d = f64_sub (Fin x) arrmean in f64_mul d d) xs
      in f64_div (pairwise_sum sq) (f64_of_int (max (int (length xs) - 1) 0)))"

section \<open>The hypothesis tester in binary64\<close>

text \<open>
  The library in this model.  \<open>t_sf x df\<close> is the survival function of Student's t
  distribution with \<open>df\<close> degrees of freedom as the library evaluates it, \<open>t_quantile q df\<close>
  its quantile function; both are parameters.
\<close>

record scipy64 =
  t_sf :: "npfloat \<Rightarrow> npfloat \<Rightarrow> npfloat"
  t_quantile :: "real \<Rightarrow> int \<Rightarrow> real"

text \<open>
  \<^verbatim>\<open>stats.ttest_ind(a, b, equal_var=...)\<close>, after the library's source.  The variances
  are the unbiased ones.  With \<^verbatim>\<open>equal_var=True\<close> the standard error comes from the pooled
  variance and the degrees of freedom are \<open>n1 + n2 - 2\<close>; with \<^verbatim>\<open>equal_var=False\<close> (Welch)
  from the two variances apart, with the degrees of freedom of Welch and Satterthwaite.
  The p-value is twice the survival function at \<open>\<bar>t\<bar>\<close>.  An empty sample gives
  \<^verbatim>\<open>nan\<close> twice.
\<close>

definition equal_var_ttest_denom :: "npfloat \<Rightarrow> int \<Rightarrow> npfloat \<Rightarrow> int \<Rightarrow> npfloat \<times> npfloat" where
  "equal_var_ttest_denom v1 n1 v2 n2 =
     (let df = f64_of_int (n1 + n2 - 2);
          svar = f64_div (f64_add (f64_mul (f64_of_int (n1 - 1)) v1)
                                  (f64_mul (f64_of_int (n2 - 1)) v2)) df;
          denom = f64_sqrt (f64_mul svar (f64_add (f64_div (Fin 1) (f64_of_int n1))
                                                   (f64_div (Fin 1) (f64_of_int n2))))
      in (df, denom))"

definition unequal_var_ttest_denom :: "npfloat \<Rightarrow> int \<Rightarrow> npfloat \<Rightarrow> int \<Rightarrow> npfloat \<times> npfloat" where
  "unequal_var_ttest_denom v1 n1 v2 n2 =
     (let vn1 = f64_div v1 (f64_of_int n1);
          vn2 = f64_div v2 (f64_of_int n2);
          df = f64_div (f64_mul (f64_add vn1 vn2) (f64_add vn1 vn2))
                 (f64_add (f64_div (f64_mul vn1 vn1) (f64_of_int (n1 - 1)))
                          (f64_div (f64_mul vn2 vn2) (f64_of_int (n2 - 1))));
          denom = f64_sqrt (f64_add vn1 vn2)
      in (df, denom))"

definition stats_ttest_ind64 ::
    "scipy64 \<Rightarrow> real list \<Rightarrow> real list \<Rightarrow> bool \<Rightarrow> npfloat \<times> npfloat" where
  "stats_ttest_ind64 lib a b equal_var =
     (if a = [] \<or> b = [] then (NaN, NaN)
      else
        let n1 = int (length a); n2 = int (length b);
            v1 = np_var64 a; v2 = np_var64 b;
            dd = (if equal_var then equal_var_ttest_denom v1 n1 v2 n2
                  else unequal_var_ttest_denom v1 n1 v2 n2);
            t = f64_div (f64_sub (np_mean64 a) (np_mean64 b)) (snd dd);
            prob = f64_mul (Fin 2) (t_sf lib (f64_abs t) (fst dd))
        in (t, prob))"

text \<open>
  \<^verbatim>\<open>stats.sem\<close>, the quantile with location and scale, and \<^verbatim>\<open>stats.t.interval\<close>.
\<close>

definition stats_sem64 :: "real list \<Rightarrow> npfloat" where
  "stats_sem64 xs =
     f64_div (f64_sqrt (np_var64 xs)) (f64_sqrt (f64_of_int (int (length xs))))"

definition stats_t_ppf64 :: "scipy64 \<Rightarrow> real \<Rightarrow> int \<Rightarrow> npfloat \<Rightarrow> npfloat \<Rightarrow> npfloat" where
  "stats_t_ppf64 lib q df loc scale =
     (if 0 < df \<and> np_less (Fin 0) scale \<and> loc \<noteq> NaN then
        (if 0 < q \<and> q < 1 then f64_add (f64_mul (Fin (t_quantile lib q df)) scale) loc
         else if q = 0 then NInf
         else if q = 1 then PInf
         else NaN)
      else NaN)"

definition stats_t_interval64 ::
    "scipy64 \<Rightarrow> real \<Rightarrow> int \<Rightarrow> npfloat \<Rightarrow> npfloat \<Rightarrow> npfloat \<times> npfloat" where
  "stats_t_interval64 lib confidence df loc scale =
     (let q1 = (1 - confidence) / 2; q2 = (1 + confidence) / 2
      in (stats_t_ppf64 lib q1 df loc scale, stats_t_ppf64 lib q2 df loc scale))"

text \<open>
  \<^verbatim>\<open>calculate_effect_size\<close> (lines 14 to 16), the expression bound to \<^verbatim>\<open>pooled_std\<close>
  (lines 30 to 32) and \<^verbatim>\<open>perform_hypothesis_test\<close> (lines 18 to 57), every operation
  rounded.  The default of \<^verbatim>\<open>alpha\<close> is \<open>py_0_05\<close>.
\<close>

definition calculate_effect_size64 :: "npfloat \<Rightarrow> npfloat \<Rightarrow> npfloat \<Rightarrow> npfloat" where
  "calculate_effect_size64 bm om ps = f64_div (f64_sub bm om) ps"

definition pooled_std64 :: "real list \<Rightarrow> real list \<Rightarrow> npfloat" where
  "pooled_std64 baseline_times optimized_times =
     f64_sqrt
       (f64_div
          (f64_add
             (f64_mul (f64_of_int (int (length baseline_times) - 1)) (np_var64 baseline_times))
             (f64_mul (f64_of_int (int (length optimized_times) - 1)) (np_var64 optimized_times)))
          (f64_of_int (int (length baseline_times) + int (length optimized_times) - 2)))"

definition perform_hypothesis_test64 ::
    "scipy64 \<Rightarrow> real list \<Rightarrow> real list \<Rightarrow> real \<Rightarrow> stat_result" where
  "perform_hypothesis_test64 lib baseline_times optimized_times alpha =
     (let bm = np_mean64 baseline_times;
          om = np_mean64 optimized_times;
          ratio = f64_div bm om;
          tp = stats_ttest_ind64 lib baseline_times optimized_times True;
          d = calculate_effect_size64 bm om (pooled_std64 baseline_times optimized_times);
          bci = stats_t_interval64 lib py_0_95 (int (length baseline_times) - 1) bm
                  (stats_sem64 baseline_times);
          oci = stats_t_interval64 lib py_0_95 (int (length optimized_times) - 1) om
                  (stats_sem64 optimized_times)
      in \<lparr> baseline_mean = bm,
           optimized_mean = om,
           improvement_ratio = ratio,
           p_value = snd tp,
           cohens_d = d,
           baseline_ci = bci,
           optimized_ci = oci,
           is_significant = (np_less (snd tp) (Fin alpha) \<and> np_greater d (Fin py_0_8)),
           t_statistic = fst tp \<rparr>)"

text \<open>
  A stand-in for the library in this model, for evaluating at concrete inputs: a survival
  function that is 0 everywhere, so that every p-value is 0, and a symmetric two-valued
  quantile.
\<close>

definition scipy64_zero_p :: scipy64 where
  "scipy64_zero_p = \<lparr> t_sf = (\<lambda>x df. Fin 0), t_quantile = (\<lambda>q df. if q < 1 / 2 then - 2 else 2) \<rparr>"

section \<open>The wording of the specification, in binary64\<close>

text \<open>
  The unbiased sample variance (the squared deviations summed and divided by \<open>n - 1\<close>),
  the pooled standard deviation of two variances and the pooled variance of two samples.
\<close>

definition unbiased_variance64 :: "real list \<Rightarrow> npfloat" where
  "unbiased_variance64 xs =
     f64_div
       (pairwise_sum (map (\<lambda>x. f64_mul (f64_sub (Fin x) (np_mean64 xs))
                                        (f64_sub (Fin x) (np_mean64 xs))) xs))
       (f64_of_int (int (length xs) - 1))"

definition pooled_std_formula64 :: "int \<Rightarrow> npfloat \<Rightarrow> int \<Rightarrow> npfloat \<Rightarrow> npfloat" where
  "pooled_std_formula64 n1 var1 n2 var2 =
     f64_sqrt (f64_div (f64_add (f64_mul (f64_of_int (n1 - 1)) var1)
                                (f64_mul (f64_of_int (n2 - 1)) var2))
                       (f64_of_int (n1 + n2 - 2)))"





text \<open>
  The finite floats are multiples of the least subnormal.
\<close>

definition on_grid :: "real \<Rightarrow> bool" where
  "on_grid y \<longleftrightarrow> (\<exists>k::int. y = of_int k * 2 powi (- 1074))"

section \<open>The numpy operations on finite samples\<close>









section \<open>The result of one test\<close>




lemmas eval_defs =
  perform_hypothesis_test_def calculate_effect_size_def pooled_std_def np_var_ddof1_def
  np_mean_def np_sum_def np_of_int_def np_sub_def np_greater_def inf_of_sign_def
  alpha_default_def stats_sem_def stats_t_interval_def stats_t_ppf_def Let_def




section \<open>The ratio summarizer: bands\<close>

lemma classify_cases:
  "classify c r =
     (if 2 \<le> r then (c + 1, ''SIGNIFICANT'')
      else if 3 / 2 \<le> r then (c, ''GOOD'')
      else if 11 / 10 \<le> r then (c, ''MODEST'')
      else (c, ''REGRESSION''))"
  by (simp add: classify_def)

text \<open>
  Claim C3.  Every positive improvement ratio gets exactly one of the four statuses:
  SIGNIFICANT exactly from 2 upwards, GOOD exactly in \<open>[1.5, 2)\<close>, MODEST exactly in
  \<open>[1.1, 1.5)\<close>, REGRESSION exactly below 1.1.  The four conditions partition the positive
  reals, so the bands are exclusive and exhaustive, and the counter of significant
  improvements grows by one exactly in the SIGNIFICANT band and is unchanged in the others.
\<close>

theorem bands_exclusive_exhaustive:
  fixes r :: real
  assumes "0 < r"
  shows "(snd (classify c r) = ''SIGNIFICANT'' \<longleftrightarrow> 2 \<le> r)
       \<and> (snd (classify c r) = ''GOOD'' \<longleftrightarrow> 3 / 2 \<le> r \<and> r < 2)
       \<and> (snd (classify c r) = ''MODEST'' \<longleftrightarrow> 11 / 10 \<le> r \<and> r < 3 / 2)
       \<and> (snd (classify c r) = ''REGRESSION'' \<longleftrightarrow> r < 11 / 10)
       \<and> snd (classify c r) \<in> {''SIGNIFICANT'', ''GOOD'', ''MODEST'', ''REGRESSION''}
       \<and> fst (classify c r) = (if snd (classify c r) = ''SIGNIFICANT'' then c + 1 else c)"
  by (simp add: classify_cases)

theorem bands_exclusive_exhaustive_witness:
  "(0::real) < 17 / 10 \<and> snd (classify 4 (17 / 10)) = ''GOOD'' \<and> fst (classify 4 (17 / 10)) = 4"
  using bands_exclusive_exhaustive [of "17 / 10" 4] by simp

text \<open>
  Claim C9.  When the baseline time of a benchmark equals its optimized time and both are
  nonzero, the pass of the loop for that benchmark succeeds, records the improvement
  ratio 1 exactly, prints the status REGRESSION, and leaves the counter of significant
  improvements as it was.
\<close>

theorem equal_times_regression:
  assumes "optimized_results benchmark = Some t" and "t \<noteq> 0"
  shows "ratio_step optimized_results st (benchmark, t) =
           Inr \<lparr> improvements = improvements st @ [(benchmark, 1)],
                 significant_improvements = significant_improvements st,
                 printed = printed st @ [(benchmark, 1, ''REGRESSION'')] \<rparr>"
  using assms by (simp add: ratio_step_def py_truediv_def classify_def)

theorem equal_times_regression_witness:
  "[''a'' \<mapsto> (5::real)] ''a'' = Some 5 \<and> (5::real) \<noteq> 0 \<and>
   ratio_step [''a'' \<mapsto> 5] \<lparr> improvements = [], significant_improvements = 0, printed = [] \<rparr> (''a'', 5) =
     Inr \<lparr> improvements = [(''a'', 1)], significant_improvements = 0,
           printed = [(''a'', 1, ''REGRESSION'')] \<rparr>"
  using equal_times_regression [of "[''a'' \<mapsto> 5]" "''a''" 5
      "\<lparr> improvements = [], significant_improvements = 0, printed = [] \<rparr>"]
  by simp

section \<open>The loop of the ratio summarizer\<close>

lemma classify_fst: "fst (classify c r) = c + (if 2 \<le> r then 1 else 0)"
  by (simp add: classify_cases)

lemma classify_snd_significant: "snd (classify c r) = ''SIGNIFICANT'' \<longleftrightarrow> 2 \<le> r"
  by (simp add: classify_cases)

lemma ratio_step_eq:
  "ratio_step opt st (k, v) =
     (case opt k of
        None \<Rightarrow> Inl KeyError
      | Some t \<Rightarrow>
          if t = 0 then Inl ZeroDivisionError
          else Inr \<lparr> improvements = improvements st @ [(k, v / t)],
                     significant_improvements = fst (classify (significant_improvements st) (v / t)),
                     printed = printed st
                       @ [(k, v / t, snd (classify (significant_improvements st) (v / t)))] \<rparr>)"
  by (simp add: ratio_step_def py_truediv_def split: option.splits prod.splits)

lemma sig_rows_append: "sig_rows (xs @ ys) = sig_rows xs + sig_rows ys"
  by (simp add: sig_rows_def)

lemma sig_rows_single: "sig_rows [(k, r, snd (classify c r))] = (if 2 \<le> r then 1 else 0)"
  by (simp add: sig_rows_def classify_snd_significant)

lemma ratio_step_inv:
  assumes "ratio_step opt st e = Inr st1"
  shows "length (improvements st1) = Suc (length (improvements st))
       \<and> significant_improvements st1 + sig_rows (printed st)
           = significant_improvements st + sig_rows (printed st1)"
proof -
  obtain k v where e: "e = (k, v)" by (cases e)
  from assms obtain t where t: "opt k = Some t" "t \<noteq> 0"
    and st1: "st1 = \<lparr> improvements = improvements st @ [(k, v / t)],
                     significant_improvements = fst (classify (significant_improvements st) (v / t)),
                     printed = printed st
                       @ [(k, v / t, snd (classify (significant_improvements st) (v / t)))] \<rparr>"
    unfolding e ratio_step_eq by (cases "opt k") (simp_all split: if_splits)
  show ?thesis
    unfolding st1 by (simp add: sig_rows_append sig_rows_single classify_fst)
qed

lemma ratio_loop_inv:
  assumes "ratio_loop opt st es = Inr st'"
  shows "length (improvements st') = length (improvements st) + length es
       \<and> significant_improvements st' + sig_rows (printed st)
           = significant_improvements st + sig_rows (printed st')"
  using assms
proof (induction es arbitrary: st)
  case Nil
  then show ?case by simp
next
  case (Cons e es)
  from Cons.prems obtain st1 where s1: "ratio_step opt st e = Inr st1"
    and rest: "ratio_loop opt st1 es = Inr st'"
    by (cases "ratio_step opt st e") simp_all
  from ratio_step_inv [OF s1] Cons.IH [OF rest] show ?case by simp
qed

lemma ratio_loop_total:
  assumes "\<forall>(k, v) \<in> set es. \<exists>t. opt k = Some t \<and> t \<noteq> 0"
  shows "\<exists>st'. ratio_loop opt st es = Inr st'"
  using assms
proof (induction es arbitrary: st)
  case Nil
  then show ?case by simp
next
  case (Cons e es)
  obtain k v where e: "e = (k, v)" by (cases e)
  with Cons.prems obtain t where t: "opt k = Some t" "t \<noteq> 0" by auto
  then obtain st1 where s1: "ratio_step opt st e = Inr st1"
    unfolding e ratio_step_eq by simp
  from Cons.prems have "\<forall>(k, v) \<in> set es. \<exists>t. opt k = Some t \<and> t \<noteq> 0" by simp
  from Cons.IH [OF this, of st1] s1 show ?case by simp
qed

lemma ratio_loop_zero:
  assumes "\<forall>(k, v) \<in> set es. k \<in> dom opt"
    and "\<exists>(k, v) \<in> set es. opt k = Some 0"
  shows "ratio_loop opt st es = Inl ZeroDivisionError"
  using assms
proof (induction es arbitrary: st)
  case Nil
  then show ?case by simp
next
  case (Cons e es)
  obtain k v where e: "e = (k, v)" by (cases e)
  from Cons.prems(1) e obtain t where t: "opt k = Some t" by auto
  show ?case
  proof (cases "t = 0")
    case True
    then show ?thesis using t by (simp add: e ratio_step_eq)
  next
    case False
    then obtain st1 where s1: "ratio_step opt st e = Inr st1"
      using t unfolding e ratio_step_eq by simp
    from Cons.prems(2) e t False have z: "\<exists>(k, v) \<in> set es. opt k = Some 0" by auto
    from Cons.prems(1) have "\<forall>(k, v) \<in> set es. k \<in> dom opt" by simp
    from Cons.IH [OF this z, of st1] s1 show ?thesis by simp
  qed
qed

lemma ratio_report_nonempty:
  assumes "improvements st \<noteq> []"
  shows "\<exists>s. ratio_report st = Inr s
           \<and> rows s = printed st
           \<and> total_benchmarks s = length (improvements st)
           \<and> significant s = significant_improvements st
           \<and> preview s =
               (if 3 \<le> significant_improvements st
                then ''NULL HYPOTHESIS LIKELY TO BE REJECTED''
                else ''INSUFFICIENT EVIDENCE TO REJECT NULL HYPOTHESIS'')"
proof -
  from assms obtain p ps where "improvements st = p # ps" by (cases "improvements st") auto
  then show ?thesis by (simp add: ratio_report_def Let_def)
qed

text \<open>
  On its own tables the script prints nine rows, five of them significant, and announces
  the rejection.
\<close>

lemma script_run:
  "\<exists>s. analyze_memory_workload_results literal_baseline_results literal_optimized_results = Inr s
     \<and> total_benchmarks s = 9 \<and> significant s = 5
     \<and> map (\<lambda>(n, r, st). st) (rows s) =
         [''SIGNIFICANT'', ''SIGNIFICANT'', ''SIGNIFICANT'', ''SIGNIFICANT'', ''MODEST'',
          ''REGRESSION'', ''GOOD'', ''REGRESSION'', ''SIGNIFICANT'']
     \<and> preview s = ''NULL HYPOTHESIS LIKELY TO BE REJECTED''"
  by (simp add: analyze_memory_workload_results_def init_state_def literal_baseline_results_def
      literal_optimized_results_def ratio_step_eq classify_cases ratio_report_def Let_def)

section \<open>The overall decision\<close>

lemma count_significant_eq:
  "count_significant c results = c + length (filter (\<lambda>(n, s). is_significant s) results)"
  by (induction c results rule: count_significant.induct) simp_all

lemma report_nonempty:
  assumes "results \<noteq> []"
  shows "generate_statistical_report results =
           Inr \<lparr> total_count = length results,
                 significant_count = length (filter (\<lambda>(n, s). is_significant s) results),
                 report_success_rate =
                   real (length (filter (\<lambda>(n, s). is_significant s) results))
                     / real (length results) * 100,
                 decision =
                   (if 3 \<le> length (filter (\<lambda>(n, s). is_significant s) results)
                    then ''DECISION: REJECT NULL HYPOTHESIS''
                    else ''DECISION: FAIL TO REJECT NULL HYPOTHESIS'') \<rparr>"
  using assms by (simp add: generate_statistical_report_def count_significant_eq Let_def)

text \<open>
  Claim C2, amended.  For a collection of results that is not empty, the report counts
  the significant results and decides to reject the null hypothesis exactly when the
  count is at least 3, and fails to reject otherwise.  For a baseline table that is not
  empty and whose benchmarks all have a nonzero optimized time, the ratio summarizer
  counts the rows of status SIGNIFICANT and announces the rejection exactly when the count
  is at least 3, and insufficient evidence otherwise.  The threshold is the constant 3 in
  both; the number of categories does not enter.
\<close>

theorem decision_threshold:
  "(results \<noteq> [] \<longrightarrow>
      (\<exists>rep. generate_statistical_report results = Inr rep
         \<and> total_count rep = length results
         \<and> significant_count rep = length (filter (\<lambda>(n, s). is_significant s) results)
         \<and> decision rep =
             (if 3 \<le> significant_count rep
              then ''DECISION: REJECT NULL HYPOTHESIS''
              else ''DECISION: FAIL TO REJECT NULL HYPOTHESIS'')))
   \<and> (baseline_results \<noteq> []
        \<and> (\<forall>(k, v) \<in> set baseline_results. \<exists>t. optimized_results k = Some t \<and> t \<noteq> 0) \<longrightarrow>
      (\<exists>s. analyze_memory_workload_results baseline_results optimized_results = Inr s
         \<and> total_benchmarks s = length baseline_results
         \<and> significant s = sig_rows (rows s)
         \<and> preview s =
             (if 3 \<le> significant s
              then ''NULL HYPOTHESIS LIKELY TO BE REJECTED''
              else ''INSUFFICIENT EVIDENCE TO REJECT NULL HYPOTHESIS'')))"
proof (intro conjI impI)
  assume "results \<noteq> []"
  from report_nonempty [OF this]
  show "\<exists>rep. generate_statistical_report results = Inr rep
         \<and> total_count rep = length results
         \<and> significant_count rep = length (filter (\<lambda>(n, s). is_significant s) results)
         \<and> decision rep =
             (if 3 \<le> significant_count rep
              then ''DECISION: REJECT NULL HYPOTHESIS''
              else ''DECISION: FAIL TO REJECT NULL HYPOTHESIS'')"
    by simp
next
  assume a: "baseline_results \<noteq> []
        \<and> (\<forall>(k, v) \<in> set baseline_results. \<exists>t. optimized_results k = Some t \<and> t \<noteq> 0)"
  then obtain st where st: "ratio_loop optimized_results init_state baseline_results = Inr st"
    using ratio_loop_total [of baseline_results optimized_results init_state] by blast
  from ratio_loop_inv [OF st]
  have len: "length (improvements st) = length baseline_results"
    and sg: "significant_improvements st = sig_rows (printed st)"
    by (simp_all add: init_state_def sig_rows_def)
  from len a have "improvements st \<noteq> []" by auto
  from ratio_report_nonempty [OF this] obtain s where s: "ratio_report st = Inr s"
    "rows s = printed st" "total_benchmarks s = length (improvements st)"
    "significant s = significant_improvements st"
    "preview s =
               (if 3 \<le> significant_improvements st
                then ''NULL HYPOTHESIS LIKELY TO BE REJECTED''
                else ''INSUFFICIENT EVIDENCE TO REJECT NULL HYPOTHESIS'')"
    by blast
  have "analyze_memory_workload_results baseline_results optimized_results = Inr s"
    using st s(1) by (simp add: analyze_memory_workload_results_def init_state_def)
  with s len sg
  show "\<exists>s. analyze_memory_workload_results baseline_results optimized_results = Inr s
         \<and> total_benchmarks s = length baseline_results
         \<and> significant s = sig_rows (rows s)
         \<and> preview s =
             (if 3 \<le> significant s
              then ''NULL HYPOTHESIS LIKELY TO BE REJECTED''
              else ''INSUFFICIENT EVIDENCE TO REJECT NULL HYPOTHESIS'')"
    by simp
qed

theorem decision_threshold_witness:
  "(\<exists>rep. generate_statistical_report
            (analyze_memory_workload_results_stats scipy_small_p
               [(''a'', [2, 3, 4], [0, 1, 2]), (''b'', [2, 3, 4], [0, 1, 2]),
                (''c'', [2, 3, 4], [0, 1, 2]), (''d'', [0, 1, 2], [2, 3, 4])]) = Inr rep
      \<and> total_count rep = 4
      \<and> significant_count rep = 3
      \<and> decision rep = ''DECISION: REJECT NULL HYPOTHESIS'')
   \<and> (\<exists>s. analyze_memory_workload_results [(''a'', 4), (''b'', 3)] [''a'' \<mapsto> 2, ''b'' \<mapsto> 2] = Inr s
      \<and> total_benchmarks s = 2
      \<and> significant s = 1
      \<and> preview s = ''INSUFFICIENT EVIDENCE TO REJECT NULL HYPOTHESIS'')"
proof -
  have up: "is_significant (perform_hypothesis_test scipy_small_p [2, 3, 4] [0, 1, 2] alpha_default)"
    by (simp add: eval_defs scipy_small_p_def)
  have down: "\<not> is_significant (perform_hypothesis_test scipy_small_p [0, 1, 2] [2, 3, 4] alpha_default)"
    by (simp add: eval_defs scipy_small_p_def)
  have rows: "analyze_memory_workload_results [(''a'', 4), (''b'', 3)] [''a'' \<mapsto> 2, ''b'' \<mapsto> 2] =
      Inr \<lparr> rows = [(''a'', 2, ''SIGNIFICANT''), (''b'', 3 / 2, ''GOOD'')],
            total_benchmarks = 2, significant = 1, success_rate = 50,
            avg_improvement = 7 / 4, max_improvement = 2, min_improvement = 3 / 2,
            preview = ''INSUFFICIENT EVIDENCE TO REJECT NULL HYPOTHESIS'' \<rparr>"
    by (simp add: analyze_memory_workload_results_def init_state_def ratio_step_eq
        classify_cases ratio_report_def Let_def)
  let ?R = "analyze_memory_workload_results_stats scipy_small_p
               [(''a'', [2, 3, 4], [0, 1, 2]), (''b'', [2, 3, 4], [0, 1, 2]),
                (''c'', [2, 3, 4], [0, 1, 2]), (''d'', [0, 1, 2], [2, 3, 4])]"
  have ne: "?R \<noteq> []" by (simp add: analyze_memory_workload_results_stats_def)
  have len: "length ?R = 4" by (simp add: analyze_memory_workload_results_stats_def)
  have cnt: "length (filter (\<lambda>(n, s). is_significant s) ?R) = 3"
    by (simp add: analyze_memory_workload_results_stats_def up down)
  from decision_threshold [of ?R "[(''a'', 4), (''b'', 3)]" "[''a'' \<mapsto> 2, ''b'' \<mapsto> 2]"] ne
  obtain rep where rep: "generate_statistical_report ?R = Inr rep"
    "total_count rep = length ?R"
    "significant_count rep = length (filter (\<lambda>(n, s). is_significant s) ?R)"
    "decision rep =
             (if 3 \<le> significant_count rep
              then ''DECISION: REJECT NULL HYPOTHESIS''
              else ''DECISION: FAIL TO REJECT NULL HYPOTHESIS'')"
    by blast
  have "total_count rep = 4" "significant_count rep = 3"
    "decision rep = ''DECISION: REJECT NULL HYPOTHESIS''"
    using rep(2,3,4) len cnt by simp_all
  with rep(1) rows show ?thesis by simp
qed

text \<open>
  The claim as it was stated (for every collection) fails for the empty one: both
  functions divide by the number of categories for the success rate, before any decision,
  and raise \<^verbatim>\<open>ZeroDivisionError\<close>.
\<close>

theorem empty_collection_counterexample:
  "generate_statistical_report [] = Inl ZeroDivisionError
   \<and> analyze_memory_workload_results [] Map.empty = Inl ZeroDivisionError"
  by (simp add: generate_statistical_report_def analyze_memory_workload_results_def
      init_state_def ratio_report_def)

section \<open>Rounding\<close>

lemma ulp_pos: "0 < ulp x"
  by (simp add: ulp_def)

lemma round_half_even_of_int: "round_half_even (of_int k) = k"
  by (simp add: round_half_even_def)

lemma round_half_even_le: "y \<le> of_int k \<Longrightarrow> round_half_even y \<le> k"
proof -
  assume a: "y \<le> of_int k"
  have f: "\<lfloor>y\<rfloor> \<le> k" using a by (simp add: floor_le_iff)
  show ?thesis
  proof (cases "\<lfloor>y\<rfloor> = k")
    case True
    then have "of_int k \<le> y" by (metis of_int_floor_le)
    with a have "y = of_int k" by simp
    then show ?thesis by (simp add: round_half_even_of_int)
  next
    case False
    with f have "\<lfloor>y\<rfloor> + 1 \<le> k" by simp
    then show ?thesis using f by (auto simp: round_half_even_def Let_def)
  qed
qed

lemma round_half_even_ge: "of_int k \<le> y \<Longrightarrow> k \<le> round_half_even y"
proof -
  assume "of_int k \<le> y"
  then have "k \<le> \<lfloor>y\<rfloor>" by (simp add: le_floor_iff)
  then show ?thesis by (auto simp: round_half_even_def Let_def)
qed

lemma fl_zero: "fl 0 = Fin 0"
  by (simp add: fl_def)






text \<open>
  The binade of a number from two powers of two around it.
\<close>

lemma two_powi_floor_log_le:
  assumes "x \<noteq> 0"
  shows "2 powi \<lfloor>log 2 \<bar>x\<bar>\<rfloor> \<le> \<bar>x\<bar>"
proof -
  have "0 < \<bar>x\<bar>" using assms by simp
  from floor_log_eq_powr_iff [OF this, of 2 "\<lfloor>log 2 \<bar>x\<bar>\<rfloor>"]
  have "2 powr real_of_int \<lfloor>log 2 \<bar>x\<bar>\<rfloor> \<le> \<bar>x\<bar>" by simp
  then show ?thesis by (simp add: powr_real_of_int')
qed

lemma less_two_powi_floor_log:
  assumes "x \<noteq> 0"
  shows "\<bar>x\<bar> < 2 powi (\<lfloor>log 2 \<bar>x\<bar>\<rfloor> + 1)"
proof -
  have "0 < \<bar>x\<bar>" using assms by simp
  from floor_log_eq_powr_iff [OF this, of 2 "\<lfloor>log 2 \<bar>x\<bar>\<rfloor>"]
  have "\<bar>x\<bar> < 2 powr real_of_int (\<lfloor>log 2 \<bar>x\<bar>\<rfloor> + 1)" by simp
  then show ?thesis by (simp only: powr_real_of_int' [of 2, simplified])
qed

lemma floor_log_less:
  assumes "x \<noteq> 0" and "\<bar>x\<bar> < 2 powi m"
  shows "\<lfloor>log 2 \<bar>x\<bar>\<rfloor> < m"
proof (rule ccontr)
  assume "\<not> \<lfloor>log 2 \<bar>x\<bar>\<rfloor> < m"
  then have "m \<le> \<lfloor>log 2 \<bar>x\<bar>\<rfloor>" by simp
  then have "(2::real) powi m \<le> 2 powi \<lfloor>log 2 \<bar>x\<bar>\<rfloor>"
    by (intro power_int_increasing) simp_all
  with two_powi_floor_log_le [OF assms(1)] assms(2) show False by simp
qed

lemma floor_log_ge:
  assumes "x \<noteq> 0" and "2 powi m \<le> \<bar>x\<bar>"
  shows "m \<le> \<lfloor>log 2 \<bar>x\<bar>\<rfloor>"
proof (rule ccontr)
  assume "\<not> m \<le> \<lfloor>log 2 \<bar>x\<bar>\<rfloor>"
  then have "\<lfloor>log 2 \<bar>x\<bar>\<rfloor> + 1 \<le> m" by simp
  then have "(2::real) powi (\<lfloor>log 2 \<bar>x\<bar>\<rfloor> + 1) \<le> 2 powi m"
    by (intro power_int_increasing) simp_all
  with less_two_powi_floor_log [OF assms(1)] assms(2) show False by simp
qed

lemma nonzero_if_powi_le:
  assumes "2 powi k \<le> \<bar>x :: real\<bar>"
  shows "x \<noteq> 0"
proof
  assume "x = 0"
  with assms have "(2::real) powi k \<le> 0" by simp
  moreover have "(0::real) < 2 powi k" by (rule zero_less_power_int) simp
  ultimately show False by linarith
qed

lemma binade_eq:
  assumes "2 powi k \<le> \<bar>x\<bar>" and "\<bar>x\<bar> < 2 powi (k + 1)"
  shows "binade x = max k (- 1022)"
proof -
  have nz: "x \<noteq> 0" by (rule nonzero_if_powi_le [OF assms(1)])
  have "\<lfloor>log 2 \<bar>x\<bar>\<rfloor> < k + 1" by (rule floor_log_less [OF nz assms(2)])
  moreover have "k \<le> \<lfloor>log 2 \<bar>x\<bar>\<rfloor>" by (rule floor_log_ge [OF nz assms(1)])
  ultimately show ?thesis by (simp add: binade_def)
qed

text \<open>
  A dyadic number with a significand below \<open>2 ^ 53\<close> is a float, and rounds to itself.
\<close>

lemma abs_dyadic_less:
  assumes "\<bar>k\<bar> < 2 ^ 53"
  shows "\<bar>of_int k * 2 powi j :: real\<bar> < 2 powi (53 + j)"
proof -
  have "\<bar>real_of_int k\<bar> < 2 ^ 53"
    using assms by (metis of_int_abs of_int_less_numeral_power_cancel_iff)
  then have "\<bar>real_of_int k\<bar> * 2 powi j < 2 ^ 53 * 2 powi j"
    by (intro mult_strict_right_mono) simp_all
  also have "(2::real) ^ 53 * 2 powi j = 2 powi (53 + j)"
    by (simp add: power_int_add)
  finally show ?thesis by (simp add: abs_mult)
qed

lemma fl_dyadic:
  assumes k: "\<bar>k\<bar> < 2 ^ 53" and lo: "- 1074 \<le> j" and hi: "j \<le> 971"
  shows "fl (of_int k * 2 powi j) = Fin (of_int k * 2 powi j)"
proof (cases "k = 0")
  case True
  then show ?thesis by (simp add: fl_zero)
next
  case False
  define x :: real where "x = of_int k * 2 powi j"
  have nz: "x \<noteq> 0" using False by (simp add: x_def)
  have lt: "\<bar>x\<bar> < 2 powi (53 + j)" unfolding x_def by (rule abs_dyadic_less [OF k])
  have "\<lfloor>log 2 \<bar>x\<bar>\<rfloor> < 53 + j" by (rule floor_log_less [OF nz lt])
  then have e: "binade x - 52 \<le> j" using lo by (simp add: binade_def)
  define d where "d = nat (j - (binade x - 52))"
  have d: "j = (binade x - 52) + int d" using e by (simp add: d_def)
  have "(2::real) powi j = 2 powi (binade x - 52) * 2 ^ d"
    by (subst d) (simp add: power_int_add)
  then have pj: "(2::real) powi j = ulp x * 2 ^ d" by (simp only: ulp_def)
  have "x = of_int k * 2 powi j" by (rule x_def)
  also have "\<dots> = of_int k * (ulp x * 2 ^ d)" by (simp only: pj)
  also have "\<dots> = of_int (k * 2 ^ d) * ulp x" by simp
  finally have xu: "x = of_int (k * 2 ^ d) * ulp x" .
  have q: "x / ulp x = of_int (k * 2 ^ d)"
    using ulp_pos [of x] by (subst xu) simp
  have r: "round_half_even (x / ulp x) = k * 2 ^ d"
    unfolding q by (rule round_half_even_of_int)
  have y: "of_int (round_half_even (x / ulp x)) * ulp x = x"
    unfolding r by (rule xu [symmetric])
  have "(2::real) powi (53 + j) \<le> 2 powi 1024"
    using hi by (intro power_int_increasing) simp_all
  with lt have "\<bar>x\<bar> < 2 ^ 1024" by simp
  then have "\<not> 2 ^ 1024 \<le> x" "\<not> x \<le> - (2 ^ 1024)" by linarith+
  then have "fl x = Fin x" using nz by (simp add: fl_def y)
  then show ?thesis by (simp add: x_def)
qed

lemma fl_of_int:
  assumes "\<bar>k\<bar> < 2 ^ 53"
  shows "fl (of_int k) = Fin (of_int k)"
  using fl_dyadic [OF assms, of 0] by simp

lemma fl_numeral: "\<bar>numeral n :: int\<bar> < 2 ^ 53 \<Longrightarrow> fl (numeral n) = Fin (numeral n)"
  using fl_of_int [of "numeral n"] by simp

lemma fl_neg_numeral:
  "\<bar>numeral n :: int\<bar> < 2 ^ 53 \<Longrightarrow> fl (- numeral n) = Fin (- numeral n)"
  using fl_of_int [of "- numeral n"] by simp

lemma fl_one: "fl 1 = Fin 1"
  using fl_of_int [of 1] by simp

lemma fl_minus_one: "fl (- 1) = Fin (- 1)"
  using fl_of_int [of "- 1"] by simp








text \<open>
  Rounding a number whose binade is known; the literal \<^verbatim>\<open>0.8\<close> is read as \<open>py_0_8\<close>.
\<close>

lemma fl_eval:
  assumes "2 powi k \<le> \<bar>x\<bar>" and "\<bar>x\<bar> < 2 powi (k + 1)" and "- 1022 \<le> k"
    and "round_half_even (x / 2 powi (k - 52)) = m"
    and "\<bar>of_int m * 2 powi (k - 52) :: real\<bar> < 2 ^ 1024"
  shows "fl x = Fin (of_int m * 2 powi (k - 52))"
proof -
  have b: "binade x = k" using binade_eq [OF assms(1,2)] assms(3) by simp
  have nz: "x \<noteq> 0" by (rule nonzero_if_powi_le [OF assms(1)])
  from assms(5) have "\<not> (2 ^ 1024 :: real) \<le> of_int m * 2 powi (k - 52)"
    "\<not> of_int m * 2 powi (k - 52) \<le> - (2 ^ 1024 :: real)" by linarith+
  then show ?thesis using nz by (simp add: fl_def ulp_def b assms(4) Let_def)
qed

lemma fl_0_8: "fl (8 / 10) = Fin py_0_8"
proof -
  have "round_half_even (8 / 10 / 2 powi (- 1 - 52)) = 7205759403792794"
    by (simp add: round_half_even_def Let_def)
  from fl_eval [of "- 1" "8 / 10", OF _ _ _ this]
  show ?thesis by (simp add: py_0_8_def)
qed

text \<open>
  The results of rounding are multiples of the least subnormal, a number of at least that
  size does not round to zero, and two different floats are at least that far apart.
\<close>

lemma on_grid_zero: "on_grid 0"
  unfolding on_grid_def by (rule exI [of _ 0]) simp

lemma ulp_grid: "\<exists>n::nat. ulp x = 2 ^ n * 2 powi (- 1074)"
proof -
  define n where "n = nat (binade x + 1022)"
  have "- 1022 \<le> binade x" by (simp add: binade_def)
  then have e: "binade x - 52 = int n + (- 1074)" by (simp add: n_def)
  have "ulp x = 2 powi (int n + (- 1074))"
    by (simp only: ulp_def e)
  also have "\<dots> = 2 powi (int n) * 2 powi (- 1074)"
    by (rule power_int_add) simp
  also have "\<dots> = 2 ^ n * 2 powi (- 1074)"
    by (simp only: power_int_of_nat)
  finally show ?thesis by blast
qed

lemma fl_on_grid:
  assumes "fl x = Fin y"
  shows "on_grid y"
proof (cases "x = 0")
  case True
  with assms show ?thesis by (simp add: fl_zero on_grid_zero)
next
  case False
  with assms have y: "y = of_int (round_half_even (x / ulp x)) * ulp x"
    by (simp add: fl_def Let_def split: if_splits)
  obtain n :: nat where n: "ulp x = 2 ^ n * 2 powi (- 1074)" using ulp_grid by blast
  have "y = of_int (round_half_even (x / ulp x) * 2 ^ n) * 2 powi (- 1074)"
    by (subst y, subst n) simp
  then show ?thesis unfolding on_grid_def by blast
qed

lemma ulp_le_abs:
  assumes "2 powi (- 1074) \<le> \<bar>x\<bar>"
  shows "ulp x \<le> \<bar>x\<bar>"
proof (cases "- 1022 \<le> \<lfloor>log 2 \<bar>x\<bar>\<rfloor>")
  case True
  have nz: "x \<noteq> 0" by (rule nonzero_if_powi_le [OF assms])
  have b: "binade x = \<lfloor>log 2 \<bar>x\<bar>\<rfloor>" using True by (simp add: binade_def)
  have "ulp x \<le> 2 powi \<lfloor>log 2 \<bar>x\<bar>\<rfloor>"
    unfolding ulp_def b by (intro power_int_increasing) simp_all
  also have "\<dots> \<le> \<bar>x\<bar>" by (rule two_powi_floor_log_le [OF nz])
  finally show ?thesis .
next
  case False
  then have "binade x = - 1022" by (simp add: binade_def)
  then have "ulp x = 2 powi (- 1074)" by (simp add: ulp_def)
  with assms show ?thesis by simp
qed

lemma fl_pos:
  assumes "2 powi (- 1074) \<le> x"
  shows "fl x = PInf \<or> (\<exists>y. fl x = Fin y \<and> 0 < y)"
proof -
  have p: "(0::real) < 2 powi (- 1074)" by (rule zero_less_power_int) simp
  with assms have x: "0 < x" by linarith
  then have ax: "\<bar>x\<bar> = x" by simp
  have "ulp x \<le> x" using ulp_le_abs [of x] assms ax by simp
  then have "of_int 1 \<le> x / ulp x" using ulp_pos [of x] by (simp add: le_divide_eq)
  from round_half_even_ge [OF this]
  have "1 \<le> round_half_even (x / ulp x)" .
  then have "0 < of_int (round_half_even (x / ulp x)) * ulp x"
    using ulp_pos [of x] by simp
  then show ?thesis using x by (auto simp: fl_def Let_def)
qed

lemma fl_neg:
  assumes "x \<le> - (2 powi (- 1074))"
  shows "fl x = NInf \<or> (\<exists>y. fl x = Fin y \<and> y < 0)"
proof -
  have p: "(0::real) < 2 powi (- 1074)" by (rule zero_less_power_int) simp
  with assms have x: "x < 0" by linarith
  then have ax: "\<bar>x\<bar> = - x" by simp
  have "ulp x \<le> - x" using ulp_le_abs [of x] assms ax by simp
  then have "x / ulp x \<le> of_int (- 1)" using ulp_pos [of x] by (simp add: divide_le_eq)
  from round_half_even_le [OF this]
  have "round_half_even (x / ulp x) \<le> - 1" .
  then have "of_int (round_half_even (x / ulp x)) \<le> (- 1 :: real)" by linarith
  then have lt: "of_int (round_half_even (x / ulp x)) * ulp x < 0"
    using ulp_pos [of x] by (simp add: mult_neg_pos)
  then have "\<not> (2 ^ 1024 :: real) \<le> of_int (round_half_even (x / ulp x)) * ulp x"
    by (smt (verit) zero_less_power)
  then show ?thesis using x lt by (auto simp: fl_def Let_def)
qed

lemma grid_gap:
  assumes "on_grid a" and "on_grid b" and "b < a"
  shows "2 powi (- 1074) \<le> a - b"
proof -
  from assms obtain k l :: int where a: "a = of_int k * 2 powi (- 1074)"
    and b: "b = of_int l * 2 powi (- 1074)" unfolding on_grid_def by blast
  have p: "(0::real) < 2 powi (- 1074)" by (rule zero_less_power_int) simp
  have "of_int l * 2 powi (- 1074) < of_int k * (2 powi (- 1074) :: real)"
    using assms(3) a b by simp
  then have "l < k" using p by (simp add: mult_less_cancel_right)
  then have "(1::real) \<le> of_int k - of_int l" by linarith
  then have "1 * 2 powi (- 1074) \<le> (of_int k - of_int l) * (2 powi (- 1074) :: real)"
    using p by (intro mult_right_mono) simp_all
  then show ?thesis by (simp add: a b algebra_simps)
qed

section \<open>The operations on float64\<close>




lemma f64_div_on_grid:
  assumes "f64_div x y = Fin m"
  shows "on_grid m"
proof (cases x)
  case (Fin a)
  show ?thesis
  proof (cases y)
    case (Fin b)
    with assms \<open>x = Fin a\<close> have "fl (a / b) = Fin m"
      by (simp add: inf_of_sign_def split: if_splits)
    then show ?thesis by (rule fl_on_grid)
  qed (use assms \<open>x = Fin a\<close> on_grid_zero in auto)
next
  case PInf
  with assms show ?thesis by (cases y) (simp_all split: if_splits)
next
  case NInf
  with assms show ?thesis by (cases y) (simp_all split: if_splits)
next
  case NaN
  with assms show ?thesis by simp
qed

lemma f64_div_by_zero: "f64_div x (Fin 0) = NaN \<or> f64_div x (Fin 0) = PInf \<or> f64_div x (Fin 0) = NInf"
  by (cases x) (simp_all add: inf_of_sign_def)

lemma pairwise_sum_short: "length a < 8 \<Longrightarrow> pairwise_sum a = foldl f64_add (Fin 0) a"
  by (subst pairwise_sum.simps) simp

section \<open>The result of one test in binary64\<close>

lemma cohens_d64_eq:
  "cohens_d (perform_hypothesis_test64 lib b o' alpha) =
     calculate_effect_size64 (np_mean64 b) (np_mean64 o') (pooled_std64 b o')"
  by (simp add: perform_hypothesis_test64_def Let_def)

lemma means64_eq:
  "baseline_mean (perform_hypothesis_test64 lib b o' alpha) = np_mean64 b"
  "optimized_mean (perform_hypothesis_test64 lib b o' alpha) = np_mean64 o'"
  by (simp_all add: perform_hypothesis_test64_def Let_def)


lemmas eval64 =
  perform_hypothesis_test64_def calculate_effect_size64_def pooled_std64_def np_var64_def
  np_mean64_def pairwise_sum_short f64_of_int_def f64_sub_def np_greater_def inf_of_sign_def
  stats_sem64_def stats_t_interval64_def stats_t_ppf64_def
  stats_ttest_ind64_def equal_var_ttest_denom_def unequal_var_ttest_denom_def
  fl_zero fl_one fl_minus_one fl_numeral fl_neg_numeral Let_def

lemma np_mean64_on_grid: "np_mean64 xs = Fin m \<Longrightarrow> on_grid m"
  unfolding np_mean64_def by (rule f64_div_on_grid)




lemma np_var64_unbiased:
  assumes "2 \<le> length xs"
  shows "np_var64 xs = unbiased_variance64 xs"
proof -
  have "max (int (length xs) - 1) 0 = int (length xs) - 1" using assms by simp
  then show ?thesis by (simp add: np_var64_def unbiased_variance64_def Let_def)
qed


lemma effect_equal_means:
  "calculate_effect_size64 (Fin m) (Fin m) ps =
     (if ps = Fin 0 \<or> ps = NaN then NaN else Fin 0)"
  by (cases ps) (simp_all add: calculate_effect_size64_def f64_sub_def fl_zero inf_of_sign_def)

lemma effect_zero_pooled:
  assumes "on_grid mb" and "on_grid mo"
  shows "calculate_effect_size64 (Fin mb) (Fin mo) (Fin 0) =
           (if mb = mo then NaN else if mo < mb then PInf else NInf)"
proof -
  consider "mb = mo" | "mo < mb" | "mb < mo" by linarith
  then show ?thesis
  proof cases
    case 1
    then show ?thesis
      by (simp add: calculate_effect_size64_def f64_sub_def fl_zero inf_of_sign_def)
  next
    case 2
    from grid_gap [OF assms 2] have "fl (mb - mo) = PInf \<or> (\<exists>y. fl (mb - mo) = Fin y \<and> 0 < y)"
      by (rule fl_pos)
    then show ?thesis using 2
      by (auto simp: calculate_effect_size64_def f64_sub_def inf_of_sign_def)
  next
    case 3
    from grid_gap [OF assms(2,1) 3] have "mb - mo \<le> - (2 powi (- 1074))" by simp
    then have "fl (mb - mo) = NInf \<or> (\<exists>y. fl (mb - mo) = Fin y \<and> y < 0)"
      by (rule fl_neg)
    then show ?thesis using 3
      by (auto simp: calculate_effect_size64_def f64_sub_def inf_of_sign_def)
  qed
qed






text \<open>
  Claim C1.  With \<^verbatim>\<open>alpha\<close> at its default, the float \<^verbatim>\<open>0.05\<close>, a test is significant
  exactly when the p-value that \<^verbatim>\<open>ttest_ind\<close> returns for the two samples is below
  \<^verbatim>\<open>0.05\<close> and Cohen's d, computed from the two samples, is above the float \<^verbatim>\<open>0.8\<close>, both
  compared as numpy compares them.  The p-value of the result is the library's, unchanged:
  nothing adjusts it for the number of categories.  In particular a test whose Cohen's d
  is a number of at most \<^verbatim>\<open>0.8\<close> is not significant, whatever its p-value.
\<close>

theorem significance_is_conjunction64:
  "(is_significant (perform_hypothesis_test64 lib b o' py_0_05) \<longleftrightarrow>
      np_less (snd (stats_ttest_ind64 lib b o' True)) (Fin py_0_05) \<and>
      np_greater (calculate_effect_size64 (np_mean64 b) (np_mean64 o') (pooled_std64 b o'))
        (Fin py_0_8))
   \<and> p_value (perform_hypothesis_test64 lib b o' py_0_05) = snd (stats_ttest_ind64 lib b o' True)
   \<and> cohens_d (perform_hypothesis_test64 lib b o' py_0_05) =
       calculate_effect_size64 (np_mean64 b) (np_mean64 o') (pooled_std64 b o')
   \<and> (\<forall>d. cohens_d (perform_hypothesis_test64 lib b o' py_0_05) = Fin d \<and> d \<le> py_0_8
          \<longrightarrow> \<not> is_significant (perform_hypothesis_test64 lib b o' py_0_05))"
  by (auto simp add: perform_hypothesis_test64_def Let_def np_greater_def)

theorem significance_is_conjunction64_witness:
  "cohens_d (perform_hypothesis_test64 scipy64_zero_p [0, 1, 2] [0, 1, 2] py_0_05) = Fin 0
   \<and> 0 \<le> py_0_8
   \<and> np_less (p_value (perform_hypothesis_test64 scipy64_zero_p [0, 1, 2] [0, 1, 2] py_0_05))
        (Fin py_0_05)
   \<and> \<not> is_significant (perform_hypothesis_test64 scipy64_zero_p [0, 1, 2] [0, 1, 2] py_0_05)
   \<and> cohens_d (perform_hypothesis_test64 scipy64_zero_p [2, 3, 4] [0, 1, 2] py_0_05) = Fin 2
   \<and> is_significant (perform_hypothesis_test64 scipy64_zero_p [2, 3, 4] [0, 1, 2] py_0_05)"
proof -
  have d: "cohens_d (perform_hypothesis_test64 scipy64_zero_p [0, 1, 2] [0, 1, 2] py_0_05) = Fin 0"
    by (simp add: eval64)
  have p: "np_less (p_value (perform_hypothesis_test64 scipy64_zero_p [0, 1, 2] [0, 1, 2] py_0_05))
        (Fin py_0_05)"
    by (simp add: eval64 scipy64_zero_p_def py_0_05_def)
  have c: "(0::real) \<le> py_0_8" by (simp add: py_0_8_def)
  have "\<forall>d. cohens_d (perform_hypothesis_test64 scipy64_zero_p [0, 1, 2] [0, 1, 2] py_0_05) = Fin d
          \<and> d \<le> py_0_8
          \<longrightarrow> \<not> is_significant (perform_hypothesis_test64 scipy64_zero_p [0, 1, 2] [0, 1, 2] py_0_05)"
    using significance_is_conjunction64 [of scipy64_zero_p "[0, 1, 2]" "[0, 1, 2]"] by (elim conjE)
  then have n: "\<not> is_significant (perform_hypothesis_test64 scipy64_zero_p [0, 1, 2] [0, 1, 2] py_0_05)"
    using d c by auto
  have d2: "cohens_d (perform_hypothesis_test64 scipy64_zero_p [2, 3, 4] [0, 1, 2] py_0_05) = Fin 2"
    by (simp add: eval64)
  have s: "is_significant (perform_hypothesis_test64 scipy64_zero_p [2, 3, 4] [0, 1, 2] py_0_05)"
    by (simp add: eval64 scipy64_zero_p_def py_0_05_def py_0_8_def)
  from d p c n d2 s show ?thesis by simp
qed

text \<open>
  Claim C4, amended.  For two groups of at least two samples each, the variance numpy
  computes is the unbiased sample variance, the pooled standard deviation is the square
  root of \<open>((n1-1) var1 + (n2-1) var2) / (n1+n2-2)\<close>, and Cohen's d is the difference of the
  computed means (baseline minus optimized) divided by it, every operation rounded to
  binary64.  When the two computed means are the same number, Cohen's d is 0 if the
  computed pooled standard deviation is neither zero nor \<^verbatim>\<open>nan\<close>, and \<^verbatim>\<open>nan\<close> otherwise.
\<close>

theorem pooled_std_and_effect_size64:
  assumes "2 \<le> length b" and "2 \<le> length o'"
  shows "np_var64 b = unbiased_variance64 b
       \<and> np_var64 o' = unbiased_variance64 o'
       \<and> pooled_std64 b o' =
           pooled_std_formula64 (int (length b)) (unbiased_variance64 b)
                                (int (length o')) (unbiased_variance64 o')
       \<and> cohens_d (perform_hypothesis_test64 lib b o' alpha) =
           f64_div (f64_sub (baseline_mean (perform_hypothesis_test64 lib b o' alpha))
                            (optimized_mean (perform_hypothesis_test64 lib b o' alpha)))
                   (pooled_std64 b o')
       \<and> (\<forall>m. baseline_mean (perform_hypothesis_test64 lib b o' alpha) = Fin m
              \<and> optimized_mean (perform_hypothesis_test64 lib b o' alpha) = Fin m \<longrightarrow>
            cohens_d (perform_hypothesis_test64 lib b o' alpha) =
              (if pooled_std64 b o' = Fin 0 \<or> pooled_std64 b o' = NaN then NaN else Fin 0))"
proof -
  have v: "np_var64 b = unbiased_variance64 b" "np_var64 o' = unbiased_variance64 o'"
    using assms by (simp_all add: np_var64_unbiased)
  have p: "pooled_std64 b o' =
           pooled_std_formula64 (int (length b)) (unbiased_variance64 b)
                                (int (length o')) (unbiased_variance64 o')"
    by (simp add: pooled_std64_def pooled_std_formula64_def v)
  have d: "cohens_d (perform_hypothesis_test64 lib b o' alpha) =
           f64_div (f64_sub (baseline_mean (perform_hypothesis_test64 lib b o' alpha))
                            (optimized_mean (perform_hypothesis_test64 lib b o' alpha)))
                   (pooled_std64 b o')"
    by (simp add: cohens_d64_eq means64_eq calculate_effect_size64_def)
  have z: "\<And>m. np_mean64 b = Fin m \<Longrightarrow> np_mean64 o' = Fin m \<Longrightarrow>
      cohens_d (perform_hypothesis_test64 lib b o' alpha) =
              (if pooled_std64 b o' = Fin 0 \<or> pooled_std64 b o' = NaN then NaN else Fin 0)"
    by (simp only: cohens_d64_eq effect_equal_means)
  show ?thesis
    by (intro conjI allI impI v p d) (use z in \<open>simp add: means64_eq\<close>)
qed

theorem pooled_std_and_effect_size64_witness:
  "2 \<le> length [0, 1, 2 :: real] \<and> 2 \<le> length [2, 3, 4 :: real]
   \<and> pooled_std64 [0, 1, 2] [2, 3, 4] = Fin 1
   \<and> cohens_d (perform_hypothesis_test64 scipy64_zero_p [0, 1, 2] [2, 3, 4] py_0_05) = Fin (- 2)
   \<and> baseline_mean (perform_hypothesis_test64 scipy64_zero_p [2, 3, 4] [2, 3, 4] py_0_05) = Fin 3
   \<and> optimized_mean (perform_hypothesis_test64 scipy64_zero_p [2, 3, 4] [2, 3, 4] py_0_05) = Fin 3
   \<and> cohens_d (perform_hypothesis_test64 scipy64_zero_p [2, 3, 4] [2, 3, 4] py_0_05) = Fin 0"
proof -
  have m: "np_mean64 [0, 1, 2] = Fin 1" "np_mean64 [2, 3, 4] = Fin 3"
    by (simp_all add: eval64)
  have v: "unbiased_variance64 [0, 1, 2] = Fin 1" "unbiased_variance64 [2, 3, 4] = Fin 1"
    by (simp_all add: unbiased_variance64_def eval64)
  have f: "pooled_std_formula64 3 (Fin 1) 3 (Fin 1) = Fin 1"
    by (simp add: pooled_std_formula64_def eval64)
  have first: "pooled_std64 [0, 1, 2] [2, 3, 4] = Fin 1
      \<and> cohens_d (perform_hypothesis_test64 scipy64_zero_p [0, 1, 2] [2, 3, 4] py_0_05) = Fin (- 2)"
    using pooled_std_and_effect_size64 [of "[0, 1, 2]" "[2, 3, 4]" scipy64_zero_p py_0_05]
    by (simp add: means64_eq m v f f64_sub_def fl_neg_numeral fl_numeral)
  have l: "2 \<le> length [2, 3, 4 :: real]" by simp
  have p2: "pooled_std64 [2, 3, 4] [2, 3, 4] = Fin 1"
    using pooled_std_and_effect_size64 [of "[2, 3, 4]" "[2, 3, 4]" scipy64_zero_p py_0_05]
    by (simp add: v f)
  have "\<forall>m. baseline_mean (perform_hypothesis_test64 scipy64_zero_p [2, 3, 4] [2, 3, 4] py_0_05) = Fin m
          \<and> optimized_mean (perform_hypothesis_test64 scipy64_zero_p [2, 3, 4] [2, 3, 4] py_0_05) = Fin m \<longrightarrow>
        cohens_d (perform_hypothesis_test64 scipy64_zero_p [2, 3, 4] [2, 3, 4] py_0_05) =
          (if pooled_std64 [2, 3, 4] [2, 3, 4] = Fin 0 \<or> pooled_std64 [2, 3, 4] [2, 3, 4] = NaN
           then NaN else Fin 0)"
    using pooled_std_and_effect_size64 [OF l l, of scipy64_zero_p py_0_05]
    by (elim conjE)
  then have second: "cohens_d (perform_hypothesis_test64 scipy64_zero_p [2, 3, 4] [2, 3, 4] py_0_05) = Fin 0"
    by (simp add: means64_eq m p2)
  from first second show ?thesis by (simp add: means64_eq m)
qed

text \<open>
  The claim as it was stated (Cohen's d is 0 for equal means, whatever the variances)
  fails for the constant groups \<^verbatim>\<open>[3, 3]\<close> and \<^verbatim>\<open>[3, 3, 3]\<close>: both computed means are 3, the
  pooled standard deviation is 0, and Cohen's d is \<^verbatim>\<open>nan\<close>.
\<close>

theorem equal_means_zero_variance_counterexample64:
  "2 \<le> length [3, 3 :: real] \<and> 2 \<le> length [3, 3, 3 :: real]
   \<and> baseline_mean (perform_hypothesis_test64 scipy64_zero_p [3, 3] [3, 3, 3] py_0_05) = Fin 3
   \<and> optimized_mean (perform_hypothesis_test64 scipy64_zero_p [3, 3] [3, 3, 3] py_0_05) = Fin 3
   \<and> cohens_d (perform_hypothesis_test64 scipy64_zero_p [3, 3] [3, 3, 3] py_0_05) = NaN
   \<and> cohens_d (perform_hypothesis_test64 scipy64_zero_p [3, 3] [3, 3, 3] py_0_05) \<noteq> Fin 0"
  by (simp add: eval64)





section \<open>Zero denominators\<close>

text \<open>
  Claim C6, amended.  In the ratio summarizer a benchmark whose optimized time is 0 makes
  the pass of the loop raise \<^verbatim>\<open>ZeroDivisionError\<close>, and so does the whole function when
  every benchmark of the baseline table has an optimized time and one of these is 0.  In
  the hypothesis tester nothing is raised: when the computed pooled standard deviation is
  0, the result is returned with a Cohen's d that is \<^verbatim>\<open>nan\<close>, \<^verbatim>\<open>+inf\<close> or \<^verbatim>\<open>-inf\<close>; for
  computed means that are numbers it is \<^verbatim>\<open>nan\<close> when they are equal, \<^verbatim>\<open>+inf\<close> when the
  baseline mean is the larger, and \<^verbatim>\<open>-inf\<close> otherwise.
\<close>

theorem zero_denominators64:
  "(optimized_results benchmark = Some 0 \<longrightarrow>
      ratio_step optimized_results st (benchmark, baseline_time) = Inl ZeroDivisionError)
   \<and> ((\<forall>(k, v) \<in> set baseline_results. k \<in> dom optimized_results)
      \<and> (\<exists>(k, v) \<in> set baseline_results. optimized_results k = Some 0) \<longrightarrow>
      analyze_memory_workload_results baseline_results optimized_results = Inl ZeroDivisionError)
   \<and> (pooled_std64 b o' = Fin 0 \<longrightarrow>
      (cohens_d (perform_hypothesis_test64 lib b o' alpha) = NaN
       \<or> cohens_d (perform_hypothesis_test64 lib b o' alpha) = PInf
       \<or> cohens_d (perform_hypothesis_test64 lib b o' alpha) = NInf)
      \<and> (\<forall>mb mo. baseline_mean (perform_hypothesis_test64 lib b o' alpha) = Fin mb
            \<and> optimized_mean (perform_hypothesis_test64 lib b o' alpha) = Fin mo \<longrightarrow>
          cohens_d (perform_hypothesis_test64 lib b o' alpha) =
            (if mb = mo then NaN else if mo < mb then PInf else NInf)))"
proof (intro conjI impI allI)
  assume "optimized_results benchmark = Some 0"
  then show "ratio_step optimized_results st (benchmark, baseline_time) = Inl ZeroDivisionError"
    by (simp add: ratio_step_eq)
next
  assume "(\<forall>(k, v) \<in> set baseline_results. k \<in> dom optimized_results)
      \<and> (\<exists>(k, v) \<in> set baseline_results. optimized_results k = Some 0)"
  then have "ratio_loop optimized_results init_state baseline_results = Inl ZeroDivisionError"
    using ratio_loop_zero [of baseline_results optimized_results init_state] by blast
  then show "analyze_memory_workload_results baseline_results optimized_results
      = Inl ZeroDivisionError"
    by (simp add: analyze_memory_workload_results_def)
next
  assume z: "pooled_std64 b o' = Fin 0"
  show "cohens_d (perform_hypothesis_test64 lib b o' alpha) = NaN
       \<or> cohens_d (perform_hypothesis_test64 lib b o' alpha) = PInf
       \<or> cohens_d (perform_hypothesis_test64 lib b o' alpha) = NInf"
    unfolding cohens_d64_eq calculate_effect_size64_def z by (rule f64_div_by_zero)
next
  fix mb mo
  assume z: "pooled_std64 b o' = Fin 0"
    and "baseline_mean (perform_hypothesis_test64 lib b o' alpha) = Fin mb
            \<and> optimized_mean (perform_hypothesis_test64 lib b o' alpha) = Fin mo"
  then have m: "np_mean64 b = Fin mb" "np_mean64 o' = Fin mo" by (simp_all add: means64_eq)
  show "cohens_d (perform_hypothesis_test64 lib b o' alpha) =
            (if mb = mo then NaN else if mo < mb then PInf else NInf)"
    unfolding cohens_d64_eq z m
    by (rule effect_zero_pooled [OF np_mean64_on_grid [OF m(1)] np_mean64_on_grid [OF m(2)]])
qed

theorem zero_denominators64_witness:
  "ratio_step [''a'' \<mapsto> 1, ''b'' \<mapsto> 0] init_state (''b'', 2) = Inl ZeroDivisionError
   \<and> analyze_memory_workload_results [(''a'', 1), (''b'', 2)] [''a'' \<mapsto> 1, ''b'' \<mapsto> 0]
     = Inl ZeroDivisionError
   \<and> pooled_std64 [2, 2] [1, 1] = Fin 0
   \<and> cohens_d (perform_hypothesis_test64 scipy64_zero_p [2, 2] [1, 1] py_0_05) = PInf"
proof -
  have p: "pooled_std64 [2, 2] [1, 1] = Fin 0" by (simp add: eval64)
  have m: "baseline_mean (perform_hypothesis_test64 scipy64_zero_p [2, 2] [1, 1] py_0_05) = Fin 2"
    "optimized_mean (perform_hypothesis_test64 scipy64_zero_p [2, 2] [1, 1] py_0_05) = Fin 1"
    by (simp_all add: means64_eq) (simp_all add: eval64)
  show ?thesis
    using zero_denominators64 [where optimized_results = "[''a'' \<mapsto> 1, ''b'' \<mapsto> 0]"
        and benchmark = "''b''" and st = init_state and baseline_time = 2
        and baseline_results = "[(''a'', 1), (''b'', 2)]"
        and b = "[2, 2]" and o' = "[1, 1]" and lib = scipy64_zero_p and alpha = py_0_05] p m
    by simp
qed

text \<open>
  The claim as it was stated (the hypothesis tester fails rather than returning
  \<^verbatim>\<open>nan\<close> or an infinity) fails for two constant groups.
\<close>

theorem zero_pooled_std_counterexample64:
  "pooled_std64 [1, 1] [1, 1] = Fin 0
   \<and> cohens_d (perform_hypothesis_test64 scipy64_zero_p [1, 1] [1, 1] py_0_05) = NaN
   \<and> improvement_ratio (perform_hypothesis_test64 scipy64_zero_p [1, 1] [1, 1] py_0_05) = Fin 1
   \<and> cohens_d (perform_hypothesis_test64 scipy64_zero_p [2, 2] [1, 1] py_0_05) = PInf"
  by (simp add: eval64)

end
